theory Spec2Isabelle
  imports Complex_Main "HOL-Library.Sublist" "HOL-Library.AList"
begin

section \<open>Python values shared by both scripts\<close>

text \<open>
  Exceptions are values.  Only subclasses of Python's \<open>Exception\<close> are modelled, the ones
  the external collaborators (tempfile, subprocess, yt-dlp, the speech-to-text client, the
  TikTok client) raise on failure; each carries the text that \<open>str(e)\<close> returns.
  \<open>Exception\<close> is a plain \<open>Exception(msg)\<close> as the scripts raise it themselves,
  \<open>TimeoutExpired\<close> is \<open>subprocess.TimeoutExpired\<close>, and \<open>OtherError\<close> is any other
  subclass (OSError, AttributeError, a download or API error).
\<close>

datatype exn = Exception string | TimeoutExpired string | OtherError string

fun exn_str :: "exn \<Rightarrow> string" where
  "exn_str (Exception m) = m"
| "exn_str (TimeoutExpired m) = m"
| "exn_str (OtherError m) = m"

text \<open>
  The user-facing messages are f-strings in Russian, one of them with a formatted float.
  A message is kept as its template together with the value interpolated into it:
  the size note of \<open>transcribe_audio\<close> (with \<open>file_size\<close> in bytes), its success note
  (with the detected language), its error note (with \<open>str(e)\<close>), and the error note of
  \<open>process_video\<close> (with \<open>str(e)\<close>).
\<close>

datatype message =
    FileTooLarge nat
  | TranscriptionDone string
  | TranscriptionError string
  | ProcessingError string

text \<open>
  Numbers are exact rationals: they stand for Python's ints and floats, and the rounding of
  IEEE doubles is not modelled.
\<close>

datatype pyval = PNone | PBool bool | PStr string | PNum rat | PMsg message

text \<open>
  A dict is an association list in insertion order.  \<open>d.get(k)\<close> is \<open>dict_get\<close>
  (\<open>None\<close> for a missing key), \<open>d[k] = v\<close> is \<open>dict_set\<close> (an existing key keeps
  its place, a new one goes last), \<open>k in d\<close> is \<open>has_key\<close>.
\<close>

type_synonym pydict = "(string \<times> pyval) list"

definition dict_get :: "pydict \<Rightarrow> string \<Rightarrow> pyval" where
  "dict_get d k = (case map_of d k of None \<Rightarrow> PNone | Some v \<Rightarrow> v)"

definition dict_set :: "pydict \<Rightarrow> string \<Rightarrow> pyval \<Rightarrow> pydict" where
  "dict_set d k v = AList.update k v d"

definition has_key :: "pydict \<Rightarrow> string \<Rightarrow> bool" where
  "has_key d k = (map_of d k \<noteq> None)"

text \<open>Truth value of an object, as \<open>if x:\<close> tests it.\<close>

fun truthy :: "pyval \<Rightarrow> bool" where
  "truthy PNone = False"
| "truthy (PBool b) = b"
| "truthy (PStr s) = (s \<noteq> [])"
| "truthy (PNum x) = (x \<noteq> 0)"
| "truthy (PMsg m) = True"

section \<open>audio_processor.py\<close>

subsection \<open>The outside world\<close>

text \<open>
  The file system maps the paths that exist to the size of the file in bytes.  The world
  also keeps the list of calls made to the external tools and services, oldest first, so
  that "was the service contacted" is a property of the state.
\<close>

type_synonym path = string
type_synonym filesystem = "path \<rightharpoonup> nat"

datatype call =
    YtDlp string string
  | SubprocessRun "string list" nat
  | WhisperCreate path

record world =
  files :: filesystem
  calls :: "call list"

text \<open>What \<open>subprocess.run(..., capture_output=True)\<close> returns when it returns.\<close>

record completed_process =
  returncode :: int
  stderr :: string

text \<open>
  The verbose response of the speech-to-text service; \<open>t_duration\<close> is
  \<open>getattr(transcript, 'duration', None)\<close>.
\<close>

record transcription =
  t_text :: string
  t_language :: string
  t_duration :: "rat option"

text \<open>
  The behaviour of the collaborators is a parameter.  \<open>named_temporary_file\<close> is the name
  \<open>tempfile.NamedTemporaryFile(suffix='.mp3', delete=False)\<close> picks (or the error it
  raises); \<open>ydl_download url outtmpl\<close> and \<open>subprocess_run cmd timeout\<close> may change
  the file system in any way; \<open>open_rb p\<close> is the error of \<open>open(p, "rb")\<close> on the
  existing file \<open>p\<close>, if any; \<open>transcriptions_create\<close> sees the path and the size
  of the file it is sent; \<open>os_unlink p\<close> is the error \<open>os.unlink\<close> raises on the
  existing file \<open>p\<close>, if any.
\<close>

record env =
  named_temporary_file :: "exn + path"
  ydl_download :: "string \<Rightarrow> string \<Rightarrow> filesystem \<Rightarrow> exn option \<times> filesystem"
  subprocess_run :: "string list \<Rightarrow> nat \<Rightarrow> filesystem \<Rightarrow> (exn + completed_process) \<times> filesystem"
  open_rb :: "path \<Rightarrow> exn option"
  transcriptions_create :: "path \<Rightarrow> nat \<Rightarrow> exn + transcription"
  os_unlink :: "path \<Rightarrow> exn option"

subsection \<open>is_youtube_url\<close>

text \<open>
  The fragment of regular expressions the pattern uses: literal text, \<open>r?\<close>,
  concatenation and \<open>a|b\<close>.  \<open>match_rx r s\<close> lists what is left of \<open>s\<close> after each
  way of matching \<open>r\<close> at its start; \<open>re_search\<close> tries every position, as
  \<open>re.search\<close> does.
\<close>

datatype regex = Lit string | Opt regex | Seq regex regex | Alt regex regex

fun match_rx :: "regex \<Rightarrow> string \<Rightarrow> string list" where
  "match_rx (Lit l) s = (if prefix l s then [drop (length l) s] else [])"
| "match_rx (Opt r) s = match_rx r s @ [s]"
| "match_rx (Seq a b) s = concat (map (match_rx b) (match_rx a s))"
| "match_rx (Alt a b) s = match_rx a s @ match_rx b s"

definition re_search :: "regex \<Rightarrow> string \<Rightarrow> bool" where
  "re_search r s = list_ex (\<lambda>t. match_rx r t \<noteq> []) (suffixes s)"

text \<open>\<open>(https?://)?(www\.)?(youtube\.com/(watch\?v=|embed/|v/)|youtu\.be/)\<close>\<close>

definition youtube_pattern :: regex where
  "youtube_pattern =
     Seq (Opt (Seq (Lit ''http'') (Seq (Opt (Lit ''s'')) (Lit ''://''))))
      (Seq (Opt (Lit ''www.''))
        (Alt (Seq (Lit ''youtube.com/'') (Alt (Lit ''watch?v='') (Alt (Lit ''embed/'') (Lit ''v/''))))
             (Lit ''youtu.be/'')))"

definition is_youtube_url :: "string \<Rightarrow> bool" where
  "is_youtube_url url = re_search youtube_pattern url"

subsection \<open>download_youtube_audio and extract_audio_from_video\<close>

text \<open>\<open>s.replace(old, new)\<close> for a non-empty \<open>old\<close>: every occurrence, left to right.\<close>

function replace :: "string \<Rightarrow> string \<Rightarrow> string \<Rightarrow> string" where
  "replace old new s =
     (if old = [] \<or> s = [] then s
      else if prefix old s then new @ replace old new (drop (length old) s)
      else hd s # replace old new (tl s))"
  by pat_completeness auto
termination
  by (relation "measure (\<lambda>(old, new, s). length s)") auto

declare replace.simps [simp del]

text \<open>
  The temporary file: \<open>NamedTemporaryFile(suffix='.mp3', delete=False)\<close> creates an empty
  file that stays on disk after \<open>close()\<close>.
\<close>

definition new_temp_mp3 :: "env \<Rightarrow> world \<Rightarrow> (exn + path) \<times> world" where
  "new_temp_mp3 e w =
     (case named_temporary_file e of
        Inl x \<Rightarrow> (Inl x, w)
      | Inr p \<Rightarrow> (Inr p, w\<lparr>files := (files w)(p \<mapsto> 0)\<rparr>))"

text \<open>\<open>if output_path is None: ...\<close>, the same four lines in both functions.\<close>

definition resolve_output :: "env \<Rightarrow> path option \<Rightarrow> world \<Rightarrow> (exn + path) \<times> world" where
  "resolve_output e output_path w =
     (case output_path of Some p \<Rightarrow> (Inr p, w) | None \<Rightarrow> new_temp_mp3 e w)"

text \<open>
  Every exception inside \<open>download_youtube_audio\<close> is re-raised as
  \<open>Exception(f"YouTube download failed: {e}")\<close>.  The options handed to yt-dlp are fixed
  but for the output template, which is what the call records.
\<close>

definition youtube_failed :: "exn \<Rightarrow> exn" where
  "youtube_failed x = Exception (''YouTube download failed: '' @ exn_str x)"

definition download_youtube_audio ::
    "env \<Rightarrow> string \<Rightarrow> path option \<Rightarrow> world \<Rightarrow> (exn + path) \<times> world" where
  "download_youtube_audio e youtube_url output_path w =
     (case resolve_output e output_path w of
        (Inl x, w1) \<Rightarrow> (Inl (youtube_failed x), w1)
      | (Inr p, w1) \<Rightarrow>
          (let outtmpl = replace ''.mp3'' ''.%(ext)s'' p;
               (r, fs) = ydl_download e youtube_url outtmpl (files w1);
               w2 = w1\<lparr>files := fs, calls := calls w1 @ [YtDlp youtube_url outtmpl]\<rparr>
           in case r of
                Some x \<Rightarrow> (Inl (youtube_failed x), w2)
              | None \<Rightarrow> (Inr p, w2)))"

definition ffmpeg_cmd :: "string \<Rightarrow> path \<Rightarrow> string list" where
  "ffmpeg_cmd video_url output_path =
     [''ffmpeg'', ''-i'', video_url, ''-q:a'', ''2'', ''-map'', ''a'', ''-y'', output_path]"

text \<open>The body of the \<open>try\<close> in \<open>extract_audio_from_video\<close>.\<close>

definition extract_body ::
    "env \<Rightarrow> string \<Rightarrow> path option \<Rightarrow> world \<Rightarrow> (exn + path) \<times> world" where
  "extract_body e video_url output_path w =
     (if is_youtube_url video_url then download_youtube_audio e video_url output_path w
      else
        (case resolve_output e output_path w of
           (Inl x, w1) \<Rightarrow> (Inl x, w1)
         | (Inr p, w1) \<Rightarrow>
             (let cmd = ffmpeg_cmd video_url p;
                  (r, fs) = subprocess_run e cmd 60 (files w1);
                  w2 = w1\<lparr>files := fs, calls := calls w1 @ [SubprocessRun cmd 60]\<rparr>
              in case r of
                   Inl x \<Rightarrow> (Inl x, w2)
                 | Inr result \<Rightarrow>
                     if returncode result \<noteq> 0
                     then (Inl (Exception (''FFmpeg failed: '' @ stderr result)), w2)
                     else (Inr p, w2))))"

text \<open>
  The two handlers: \<open>except subprocess.TimeoutExpired\<close> raises
  \<open>Exception("Audio extraction timeout")\<close>, \<open>except Exception\<close> logs and re-raises.
\<close>

definition extract_audio_from_video ::
    "env \<Rightarrow> string \<Rightarrow> path option \<Rightarrow> world \<Rightarrow> (exn + path) \<times> world" where
  "extract_audio_from_video e video_url output_path w =
     (case extract_body e video_url output_path w of
        (Inl (TimeoutExpired m), w') \<Rightarrow> (Inl (Exception ''Audio extraction timeout''), w')
      | (Inl x, w') \<Rightarrow> (Inl x, w')
      | (Inr p, w') \<Rightarrow> (Inr p, w'))"

subsection \<open>transcribe_audio\<close>

text \<open>
  \<open>os.path.getsize\<close> raises FileNotFoundError for a path that does not exist; the text
  of the error quotes the path.
\<close>

definition getsize :: "world \<Rightarrow> path \<Rightarrow> exn + nat" where
  "getsize w p =
     (case files w p of
        None \<Rightarrow>
          Inl (OtherError (''[Errno 2] No such file or directory: '' @ CHR 0x27 # p @ [CHR 0x27]))
      | Some n \<Rightarrow> Inr n)"

definition transcription_failed :: "exn \<Rightarrow> pydict" where
  "transcription_failed x =
     [(''success'', PBool False), (''transcript'', PStr ''''), (''language'', PStr ''en''),
      (''message'', PMsg (TranscriptionError (exn_str x)))]"

definition transcribe_audio :: "env \<Rightarrow> path \<Rightarrow> world \<Rightarrow> pydict \<times> world" where
  "transcribe_audio e audio_path w =
     (case getsize w audio_path of
        Inl x \<Rightarrow> (transcription_failed x, w)
      | Inr file_size \<Rightarrow>
          if file_size > 25 * 1024 * 1024
          then ([(''success'', PBool False), (''transcript'', PStr ''''),
                 (''language'', PStr ''en''), (''message'', PMsg (FileTooLarge file_size))], w)
          else
            (case open_rb e audio_path of
               Some x \<Rightarrow> (transcription_failed x, w)
             | None \<Rightarrow>
                 (let w1 = w\<lparr>calls := calls w @ [WhisperCreate audio_path]\<rparr>
                  in case transcriptions_create e audio_path file_size of
                       Inl x \<Rightarrow> (transcription_failed x, w1)
                     | Inr transcript \<Rightarrow>
                         ([(''success'', PBool True), (''transcript'', PStr (t_text transcript)),
                           (''language'', PStr (t_language transcript)),
                           (''duration'', (case t_duration transcript of
                                             None \<Rightarrow> PNone | Some d \<Rightarrow> PNum d)),
                           (''message'', PMsg (TranscriptionDone (t_language transcript)))],
                          w1))))"

subsection \<open>process_video\<close>

text \<open>
  \<open>duration / 60 * 0.006\<close>: defined on numbers (a bool counts as 0 or 1), a TypeError on
  anything else.
\<close>

fun cost_of :: "pyval \<Rightarrow> exn + rat" where
  "cost_of (PNum d) = Inr (d / 60 * 0.006)"
| "cost_of (PBool b) = Inr ((if b then 1 else 0) / 60 * 0.006)"
| "cost_of v = Inl (OtherError ''unsupported operand type(s) for /'')"

definition processing_failed :: "exn \<Rightarrow> pydict" where
  "processing_failed x =
     [(''success'', PBool False), (''transcript'', PStr ''''), (''language'', PStr ''en''),
      (''message'', PMsg (ProcessingError (exn_str x)))]"

text \<open>
  The body of the \<open>try\<close>: the result or the exception, the value of the local variable
  \<open>audio_path\<close> when the block is left, and the world.
\<close>

definition process_body ::
    "env \<Rightarrow> string \<Rightarrow> world \<Rightarrow> (exn + pydict) \<times> path option \<times> world" where
  "process_body e video_url w =
     (case extract_audio_from_video e video_url None w of
        (Inl x, w1) \<Rightarrow> (Inl x, None, w1)
      | (Inr audio_path, w1) \<Rightarrow>
          (let (transcription_result, w2) = transcribe_audio e audio_path w1
           in if truthy (dict_get transcription_result ''duration'')
              then (case cost_of (dict_get transcription_result ''duration'') of
                      Inl x \<Rightarrow> (Inl x, Some audio_path, w2)
                    | Inr cost \<Rightarrow>
                        (Inr (dict_set transcription_result ''estimated_cost'' (PNum cost)),
                         Some audio_path, w2))
              else (Inr transcription_result, Some audio_path, w2)))"

text \<open>
  The \<open>finally\<close> block:
  \<open>if cleanup and audio_path and os.path.exists(audio_path)\<close>, then \<open>os.unlink\<close>, whose
  own failure is logged and dropped.
\<close>

definition cleanup_step :: "env \<Rightarrow> bool \<Rightarrow> path option \<Rightarrow> world \<Rightarrow> world" where
  "cleanup_step e cleanup audio_path w =
     (case audio_path of
        None \<Rightarrow> w
      | Some p \<Rightarrow>
          if cleanup \<and> p \<noteq> [] \<and> files w p \<noteq> None
          then (case os_unlink e p of
                  None \<Rightarrow> w\<lparr>files := (files w)(p := None)\<rparr>
                | Some x \<Rightarrow> w)
          else w)"

text \<open>
  \<open>process_video\<close>: \<open>except Exception\<close> turns an exception of the body into the failure
  dict, and \<open>finally\<close> runs on both ways out.  The result is typed as a sum so that
  "does not raise" is a statement about the value.
\<close>

definition process_video ::
    "env \<Rightarrow> string \<Rightarrow> bool \<Rightarrow> world \<Rightarrow> (exn + pydict) \<times> world" where
  "process_video e video_url cleanup w =
     (case process_body e video_url w of
        (Inl x, audio_path, w') \<Rightarrow> (Inr (processing_failed x), cleanup_step e cleanup audio_path w')
      | (Inr r, audio_path, w') \<Rightarrow> (Inr r, cleanup_step e cleanup audio_path w'))"

section \<open>tiktok_search.py\<close>

subsection \<open>String operations\<close>

text \<open>
  Strings are ASCII here.  \<open>str.split()\<close> cuts at runs of whitespace and yields no empty
  token; \<open>str.lower()\<close> maps \<open>A\<close>..\<open>Z\<close> to \<open>a\<close>..\<open>z\<close>; \<open>a in b\<close> on strings is
  \<open>sublist a b\<close>.
\<close>

definition is_space :: "char \<Rightarrow> bool" where
  "is_space c = (of_char c \<in> {9, 10, 11, 12, 13, 28, 29, 30, 31, 32 :: nat})"

fun split_from :: "string \<Rightarrow> string \<Rightarrow> string list" where
  "split_from cur [] = (if cur = [] then [] else [cur])"
| "split_from cur (c # cs) =
     (if is_space c then (if cur = [] then split_from [] cs else cur # split_from [] cs)
      else split_from (cur @ [c]) cs)"

definition split :: "string \<Rightarrow> string list" where
  "split s = split_from [] s"

definition lower_char :: "char \<Rightarrow> char" where
  "lower_char c =
     (if 65 \<le> (of_char c :: nat) \<and> (of_char c :: nat) \<le> 90
      then char_of (of_char c + 32 :: nat) else c)"

definition lower :: "string \<Rightarrow> string" where
  "lower s = map lower_char s"

subsection \<open>The remote feeds\<close>

text \<open>
  An asynchronous iterator as the loop sees it: it ends, raises, or yields an item and
  goes on.  A call that raises before the first item (\<open>api.hashtag(...)\<close> itself, or the
  first page) is \<open>Raise\<close> at the head.
\<close>

datatype 'a feed = End | Raise exn | Yield 'a "'a feed"

text \<open>
  A video object of the client library.  \<open>v_author\<close> is \<open>video.author.username\<close>,
  \<open>None\<close> when the attribute access raises.  The other fields are what the \<open>.get\<close>
  chains on \<open>video.as_dict\<close> return before the \<open>or\<close> default is applied, \<open>None\<close>
  for a null: \<open>v_desc\<close> is \<open>video_dict.get('desc', '')\<close>, \<open>v_text_extra\<close> the
  \<open>hashtagName\<close> of each entry of \<open>textExtra\<close>, \<open>v_create_time\<close> the text
  \<open>str(video_dict.get('createTime', ''))\<close>.
\<close>

record video =
  v_id :: string
  v_author :: "string option"
  v_desc :: "string option"
  v_cover :: "string option"
  v_play_count :: "int option"
  v_digg_count :: "int option"
  v_comment_count :: "int option"
  v_duration :: "int option"
  v_create_time :: string
  v_text_extra :: "string option list"
  v_music_title :: "string option"

text \<open>The normalised record, one field per key of \<open>video_data\<close>.\<close>

record video_data =
  vd_video_id :: string
  vd_platform :: string
  vd_title :: string
  vd_description :: string
  vd_url :: string
  vd_thumbnail_url :: string
  vd_views :: int
  vd_likes :: int
  vd_comments :: int
  vd_duration :: int
  vd_published_at :: string
  vd_author :: string
  vd_hashtags :: "string list"
  vd_music :: string

text \<open>\<open>x or default\<close> on an optional string and on an optional integer.\<close>

definition str_or :: "string option \<Rightarrow> string \<Rightarrow> string" where
  "str_or x d = (case x of None \<Rightarrow> d | Some s \<Rightarrow> if s = [] then d else s)"

definition int_or :: "int option \<Rightarrow> int \<Rightarrow> int" where
  "int_or x d = (case x of None \<Rightarrow> d | Some n \<Rightarrow> if n = 0 then d else n)"

text \<open>
  The dict literal of both tiers; they differ in the fallback title only.  Reading
  \<open>video.author.username\<close> is the step that can raise.
\<close>

definition make_video_data :: "string \<Rightarrow> video \<Rightarrow> exn + video_data" where
  "make_video_data fallback_title v =
     (case v_author v of
        None \<Rightarrow> Inl (OtherError ''object has no attribute username'')
      | Some username \<Rightarrow>
          Inr \<lparr>vd_video_id = v_id v,
               vd_platform = ''tiktok'',
               vd_title = str_or (v_desc v) fallback_title,
               vd_description = str_or (v_desc v) [],
               vd_url = ''https://www.tiktok.com/@'' @ username @ ''/video/'' @ v_id v,
               vd_thumbnail_url = str_or (v_cover v) [],
               vd_views = int_or (v_play_count v) 0,
               vd_likes = int_or (v_digg_count v) 0,
               vd_comments = int_or (v_comment_count v) 0,
               vd_duration = int_or (v_duration v) 30,
               vd_published_at = v_create_time v,
               vd_author = username,
               vd_hashtags = concat (map (\<lambda>t. case t of None \<Rightarrow> []
                                          | Some n \<Rightarrow> if n = [] then [] else [n]) (v_text_extra v)),
               vd_music = (case v_music_title v of None \<Rightarrow> [] | Some t \<Rightarrow> t)\<rparr>)"

subsection \<open>The two tiers\<close>

text \<open>
  The hashtag loop.  The result is the exception that ended the iteration, if any, and the
  list \<open>videos\<close> as the loop left it: what was appended before an exception stays.
\<close>

fun hashtag_loop ::
    "string \<Rightarrow> int \<Rightarrow> video feed \<Rightarrow> int \<Rightarrow> video_data list \<Rightarrow> exn option \<times> video_data list" where
  "hashtag_loop query max_results End video_count vids = (None, vids)"
| "hashtag_loop query max_results (Raise x) video_count vids = (Some x, vids)"
| "hashtag_loop query max_results (Yield v rest) video_count vids =
     (if video_count \<ge> max_results then (None, vids)
      else
        (case make_video_data (''TikTok video about '' @ query) v of
           Inl x \<Rightarrow> hashtag_loop query max_results rest video_count vids
         | Inr d \<Rightarrow> hashtag_loop query max_results rest (video_count + 1) (vids @ [d])))"

text \<open>
  \<open>any(keyword.lower() in desc for keyword in query.split())\<close>, with \<open>desc\<close> already
  in lower case.
\<close>

definition relevant :: "string \<Rightarrow> string \<Rightarrow> bool" where
  "relevant query desc = list_ex (\<lambda>keyword. sublist (lower keyword) desc) (split query)"

text \<open>
  The inner \<open>try\<close> of the trending loop on one video: an exception, or the record to
  append, if any.  \<open>.lower()\<close> on a null description raises.
\<close>

definition trending_step :: "string \<Rightarrow> video \<Rightarrow> exn + video_data option" where
  "trending_step query v =
     (case v_desc v of
        None \<Rightarrow> Inl (OtherError ''NoneType object has no attribute lower'')
      | Some d \<Rightarrow>
          if relevant query (lower d)
          then (case make_video_data ''Trending TikTok video'' v of
                  Inl x \<Rightarrow> Inl x
                | Inr vd \<Rightarrow> Inr (Some vd))
          else Inr None)"

text \<open>
  The trending loop: \<open>continue\<close> in the handler skips the increment, every other video
  is counted whether it was kept or not.
\<close>

fun trending_loop ::
    "string \<Rightarrow> int \<Rightarrow> video feed \<Rightarrow> int \<Rightarrow> video_data list \<Rightarrow> exn option \<times> video_data list" where
  "trending_loop query max_results End video_count vids = (None, vids)"
| "trending_loop query max_results (Raise x) video_count vids = (Some x, vids)"
| "trending_loop query max_results (Yield v rest) video_count vids =
     (if video_count \<ge> max_results then (None, vids)
      else
        (case trending_step query v of
           Inl x \<Rightarrow> trending_loop query max_results rest video_count vids
         | Inr None \<Rightarrow> trending_loop query max_results rest (video_count + 1) vids
         | Inr (Some d) \<Rightarrow> trending_loop query max_results rest (video_count + 1) (vids @ [d])))"

subsection \<open>search_tiktok_videos\<close>

text \<open>
  The client library and the environment variable.  \<open>api_enter\<close> and \<open>api_exit\<close> are the
  errors of entering and leaving \<open>async with TikTokApi() as api\<close>, if any;
  \<open>hashtag_videos name count\<close> is \<open>api.hashtag(name=name).videos(count=count)\<close> and
  \<open>trending_videos count\<close> is \<open>api.trending.videos(count=count)\<close>.
\<close>

record tiktok_env =
  ms_token :: "string option"
  api_enter :: "exn option"
  create_sessions :: "string \<Rightarrow> exn option"
  hashtag_videos :: "string \<Rightarrow> int \<Rightarrow> video feed"
  trending_videos :: "int \<Rightarrow> video feed"
  api_exit :: "exn option"

datatype search_message = Found nat string | NotFound string | SearchError string

record search_result =
  sr_success :: bool
  sr_videos :: "video_data list"
  sr_total_found :: nat
  sr_message :: search_message

text \<open>
  The two nested \<open>try\<close> blocks: the trending tier runs in the handler of the hashtag
  tier, on the same list, with the counter back at 0; its own exception is logged and
  dropped.
\<close>

definition collect_videos :: "tiktok_env \<Rightarrow> string \<Rightarrow> int \<Rightarrow> video_data list" where
  "collect_videos t query max_results =
     (let hashtag_query = lower (replace '' '' [] query)
      in case hashtag_loop query max_results (hashtag_videos t hashtag_query max_results) 0 [] of
           (None, vids) \<Rightarrow> vids
         | (Some hashtag_error, vids) \<Rightarrow>
             snd (trending_loop query max_results (trending_videos t max_results) 0 vids))"

text \<open>
  The \<open>async with\<close> block: the session is created only for a non-empty token; leaving the
  block can raise too, and then that exception is the one that propagates.
\<close>

definition search_body :: "tiktok_env \<Rightarrow> string \<Rightarrow> int \<Rightarrow> exn + video_data list" where
  "search_body t query max_results =
     (case api_enter t of
        Some x \<Rightarrow> Inl x
      | None \<Rightarrow>
          (case (case ms_token t of
                   None \<Rightarrow> None
                 | Some tok \<Rightarrow> if tok = [] then None else create_sessions t tok) of
             Some x \<Rightarrow> (case api_exit t of Some y \<Rightarrow> Inl y | None \<Rightarrow> Inl x)
           | None \<Rightarrow>
               (let vids = collect_videos t query max_results
                in case api_exit t of Some y \<Rightarrow> Inl y | None \<Rightarrow> Inr vids)))"

definition search_tiktok_videos :: "tiktok_env \<Rightarrow> string \<Rightarrow> int \<Rightarrow> exn + search_result" where
  "search_tiktok_videos t query max_results =
     (case search_body t query max_results of
        Inr vids \<Rightarrow>
          if vids \<noteq> []
          then Inr \<lparr>sr_success = True, sr_videos = vids, sr_total_found = length vids,
                    sr_message = Found (length vids) query\<rparr>
          else Inr \<lparr>sr_success = False, sr_videos = [], sr_total_found = 0,
                    sr_message = NotFound query\<rparr>
      | Inl x \<Rightarrow>
          Inr \<lparr>sr_success = False, sr_videos = [], sr_total_found = 0,
               sr_message = SearchError (exn_str x)\<rparr>)"

subsection \<open>The trending tier, stated without the loop\<close>

text \<open>
  The items of a feed up to its end or its exception; whether a video's description
  contains a token of the query (case-insensitive); and the records the trending tier
  keeps: drop the videos whose processing raises, look at the first \<open>max_results\<close> of
  the others, keep the relevant ones among these.
\<close>

fun feed_items :: "'a feed \<Rightarrow> 'a list" where
  "feed_items End = []"
| "feed_items (Raise x) = []"
| "feed_items (Yield v rest) = v # feed_items rest"

definition matches_query :: "string \<Rightarrow> video \<Rightarrow> bool" where
  "matches_query query v =
     (case v_desc v of None \<Rightarrow> False | Some d \<Rightarrow> relevant query (lower d))"

definition processed :: "string \<Rightarrow> video list \<Rightarrow> video_data option list" where
  "processed query vs =
     List.map_filter (\<lambda>v. case trending_step query v of Inl x \<Rightarrow> None | Inr r \<Rightarrow> Some r) vs"

definition trending_kept :: "string \<Rightarrow> int \<Rightarrow> video feed \<Rightarrow> video_data list" where
  "trending_kept query max_results f =
     List.map_filter id (take (nat max_results) (processed query (feed_items f)))"

section \<open>Example inputs\<close>

text \<open>
  A world with no file and no call yet, and a family of collaborators: the temporary file
  is \<open>/tmp/tmpk3.mp3\<close>, the FFmpeg process exits with \<open>rc\<close> (writing its output only
  on 0), the service answers \<open>hello\<close> with duration \<open>d\<close>, and \<open>os.unlink\<close> raises
  \<open>unlink_error\<close>, if any.
\<close>

definition start :: world where
  "start = \<lparr>files = Map.empty, calls = []\<rparr>"

definition demo_env :: "int \<Rightarrow> rat option \<Rightarrow> exn option \<Rightarrow> env" where
  "demo_env rc d unlink_error =
     \<lparr>named_temporary_file = Inr ''/tmp/tmpk3.mp3'',
      ydl_download = (\<lambda>u t fs. (None, fs(''/tmp/tmpk3.mp3'' \<mapsto> 48000))),
      subprocess_run = (\<lambda>cmd timeout fs.
         (Inr \<lparr>returncode = rc, stderr = ''Invalid data''\<rparr>,
          if rc = 0 then fs(last cmd \<mapsto> 48000) else fs)),
      open_rb = (\<lambda>p. None),
      transcriptions_create =
        (\<lambda>p n. Inr \<lparr>t_text = ''hello'', t_language = ''en'', t_duration = d\<rparr>),
      os_unlink = (\<lambda>p. unlink_error)\<rparr>"

text \<open>The FFmpeg process runs into the timeout; the \<open>ffmpeg\<close> binary is missing.\<close>

definition timeout_env :: env where
  "timeout_env = (demo_env 0 None None)\<lparr>subprocess_run :=
     (\<lambda>cmd timeout fs. (Inl (TimeoutExpired ''Command timed out after 60 seconds''), fs))\<rparr>"

definition missing_ffmpeg_env :: env where
  "missing_ffmpeg_env = (demo_env 0 None None)\<lparr>subprocess_run :=
     (\<lambda>cmd timeout fs. (Inl (OtherError ''[Errno 2] No such file or directory: ffmpeg''), fs))\<rparr>"

text \<open>
  A video by \<open>ann\<close> with the given id and description, and a client without token whose
  hashtag feed and trending feed are given.
\<close>

definition demo_video :: "string \<Rightarrow> string \<Rightarrow> video" where
  "demo_video i d =
     \<lparr>v_id = i, v_author = Some ''ann'', v_desc = Some d, v_cover = None,
      v_play_count = Some 10, v_digg_count = None, v_comment_count = None,
      v_duration = None, v_create_time = ''1700000000'', v_text_extra = [],
      v_music_title = None\<rparr>"

definition demo_tiktok :: "video feed \<Rightarrow> video feed \<Rightarrow> tiktok_env" where
  "demo_tiktok h t =
     \<lparr>ms_token = None, api_enter = None, create_sessions = (\<lambda>tok. None),
      hashtag_videos = (\<lambda>name count. h), trending_videos = (\<lambda>count. t),
      api_exit = None\<rparr>"

section \<open>Properties of audio_processor.py\<close>

subsection \<open>transcribe_audio\<close>

text \<open>
  C2.  For an audio file larger than 25 MB (25 * 1024 * 1024 bytes) \<open>transcribe_audio\<close>
  returns the dict with \<open>success\<close> false, an empty transcript, language \<open>en\<close> and the
  size note, and the world is unchanged: no call to the speech-to-text service is made.
\<close>

theorem transcribe_audio_too_large:
  assumes "files w audio_path = Some file_size" and "file_size > 25 * 1024 * 1024"
  shows "transcribe_audio e audio_path w =
           ([(''success'', PBool False), (''transcript'', PStr ''''), (''language'', PStr ''en''),
             (''message'', PMsg (FileTooLarge file_size))], w)
         \<and> calls (snd (transcribe_audio e audio_path w)) = calls w"
  using assms by (simp add: transcribe_audio_def getsize_def)

theorem transcribe_audio_too_large_witness:
  "transcribe_audio (demo_env 0 (Some 600) None) ''/tmp/big.mp3''
       \<lparr>files = [''/tmp/big.mp3'' \<mapsto> 30000000], calls = []\<rparr> =
     ([(''success'', PBool False), (''transcript'', PStr ''''), (''language'', PStr ''en''),
       (''message'', PMsg (FileTooLarge 30000000))],
      \<lparr>files = [''/tmp/big.mp3'' \<mapsto> 30000000], calls = []\<rparr>)"
  using transcribe_audio_too_large [of "\<lparr>files = [''/tmp/big.mp3'' \<mapsto> 30000000], calls = []\<rparr>"
      "''/tmp/big.mp3''" 30000000 "demo_env 0 (Some 600) None"]
  by simp

subsection \<open>is_youtube_url\<close>

text \<open>
  Since \<open>re.search\<close> looks at every position and the scheme and \<open>www.\<close> groups are
  optional, the pattern matches exactly the strings that contain one of the four shapes.
\<close>

lemma match_rx_suffix: "u \<in> set (match_rx r t) \<Longrightarrow> suffix u t"
proof (induction r arbitrary: t u)
  case (Lit l)
  then show ?case by (auto simp: suffix_drop split: if_splits)
next
  case (Seq a b)
  then show ?case by (fastforce intro: suffix_order.trans)
qed auto

lemma match_opt_seq:
  "(\<exists>t. suffix t s \<and> match_rx (Seq (Opt a) r) t \<noteq> []) \<longleftrightarrow> (\<exists>t. suffix t s \<and> match_rx r t \<noteq> [])"
proof
  assume "\<exists>t. suffix t s \<and> match_rx (Seq (Opt a) r) t \<noteq> []"
  then obtain t where t: "suffix t s" "match_rx (Seq (Opt a) r) t \<noteq> []"
    by blast
  then obtain u where u: "u \<in> set (match_rx a t @ [t])" "match_rx r u \<noteq> []"
    by auto
  then have "suffix u t"
    using match_rx_suffix [of u a t] by auto
  with t(1) have "suffix u s"
    by (rule suffix_order.trans [rotated])
  with u(2) show "\<exists>t. suffix t s \<and> match_rx r t \<noteq> []"
    by blast
next
  assume "\<exists>t. suffix t s \<and> match_rx r t \<noteq> []"
  then show "\<exists>t. suffix t s \<and> match_rx (Seq (Opt a) r) t \<noteq> []"
    by auto
qed

lemma prefix_append_drop: "prefix (a @ b) t \<longleftrightarrow> prefix a t \<and> prefix b (drop (length a) t)"
  by (auto simp: prefix_def)

lemma is_youtube_url_iff:
  "is_youtube_url url \<longleftrightarrow>
     sublist ''youtube.com/watch?v='' url \<or> sublist ''youtube.com/embed/'' url
     \<or> sublist ''youtube.com/v/'' url \<or> sublist ''youtu.be/'' url"
proof -
  let ?core = "Alt (Seq (Lit ''youtube.com/'') (Alt (Lit ''watch?v='') (Alt (Lit ''embed/'') (Lit ''v/''))))
                   (Lit ''youtu.be/'')"
  have core: "match_rx ?core t \<noteq> [] \<longleftrightarrow>
      prefix ''youtube.com/watch?v='' t \<or> prefix ''youtube.com/embed/'' t
      \<or> prefix ''youtube.com/v/'' t \<or> prefix ''youtu.be/'' t" for t
    using prefix_append_drop [of "''youtube.com/''" "''watch?v=''" t]
      prefix_append_drop [of "''youtube.com/''" "''embed/''" t]
      prefix_append_drop [of "''youtube.com/''" "''v/''" t]
    by auto
  have "is_youtube_url url \<longleftrightarrow> (\<exists>t. suffix t url \<and> match_rx youtube_pattern t \<noteq> [])"
    by (auto simp: is_youtube_url_def re_search_def list_ex_iff)
  also have "\<dots> \<longleftrightarrow> (\<exists>t. suffix t url \<and> match_rx ?core t \<noteq> [])"
    unfolding youtube_pattern_def by (simp only: match_opt_seq)
  also have "\<dots> \<longleftrightarrow> sublist ''youtube.com/watch?v='' url \<or> sublist ''youtube.com/embed/'' url
     \<or> sublist ''youtube.com/v/'' url \<or> sublist ''youtu.be/'' url"
    unfolding core sublist_altdef' by blast
  finally show ?thesis .
qed

subsection \<open>Facts about the fetch step\<close>

lemma yt_short: "is_youtube_url ''https://youtu.be/abc123''" by code_simp
lemma not_yt_clip: "\<not> is_youtube_url ''/home/u/clip.mp4''" by code_simp
lemma tmpl_tmpk3: "replace ''.mp3'' ''.%(ext)s'' ''/tmp/tmpk3.mp3'' = ''/tmp/tmpk3.%(ext)s''" by code_simp

lemma demo_tmp: "resolve_output (demo_env rc d u) None start =
   (Inr ''/tmp/tmpk3.mp3'', \<lparr>files = [''/tmp/tmpk3.mp3'' \<mapsto> 0], calls = []\<rparr>)"
  by (simp add: resolve_output_def new_temp_mp3_def demo_env_def start_def)

lemma download_never_timeout:
  "fst (download_youtube_audio e url out w) \<noteq> Inl (TimeoutExpired m)"
  by (auto simp: download_youtube_audio_def youtube_failed_def Let_def
           split: prod.splits sum.splits option.splits)

lemma extract_youtube:
  assumes "is_youtube_url url"
  shows "extract_audio_from_video e url out w = download_youtube_audio e url out w"
proof -
  obtain r w' where d: "download_youtube_audio e url out w = (r, w')"
    by (cases "download_youtube_audio e url out w")
  with download_never_timeout [of e url out w] have "\<And>m. r \<noteq> Inl (TimeoutExpired m)"
    by simp
  with d assms show ?thesis
    by (simp add: extract_audio_from_video_def extract_body_def split: sum.splits exn.splits)
qed

lemma download_calls:
  "calls (snd (download_youtube_audio e url out w)) =
     calls w @ (case fst (resolve_output e out w) of
                  Inl x \<Rightarrow> []
                | Inr p \<Rightarrow> [YtDlp url (replace ''.mp3'' ''.%(ext)s'' p)])"
  by (auto simp: download_youtube_audio_def resolve_output_def new_temp_mp3_def Let_def
           split: prod.splits sum.splits option.splits)

lemma extract_generic_calls:
  assumes "\<not> is_youtube_url url"
  shows "calls (snd (extract_audio_from_video e url out w)) =
     calls w @ (case fst (resolve_output e out w) of
                  Inl x \<Rightarrow> []
                | Inr p \<Rightarrow> [SubprocessRun (ffmpeg_cmd url p) 60])"
  using assms
  by (auto simp: extract_audio_from_video_def extract_body_def resolve_output_def
        new_temp_mp3_def Let_def
      split: prod.splits sum.splits option.splits exn.splits)

subsection \<open>extract_audio_from_video\<close>

text \<open>
  C8.  A reference that the pattern classifies as a YouTube URL is handed to
  \<open>download_youtube_audio\<close>, whose outcome is the outcome of the fetch, and the only tool
  invoked is yt-dlp; for every other reference the only tool invoked is the FFmpeg
  process.  (When no temporary file can be created, no tool is invoked at all.)
\<close>

theorem extract_audio_routing:
  "(is_youtube_url url \<longrightarrow>
      extract_audio_from_video e url out w = download_youtube_audio e url out w)
   \<and> calls (snd (extract_audio_from_video e url out w)) =
       calls w @ (case fst (resolve_output e out w) of
                    Inl x \<Rightarrow> []
                  | Inr p \<Rightarrow>
                      if is_youtube_url url
                      then [YtDlp url (replace ''.mp3'' ''.%(ext)s'' p)]
                      else [SubprocessRun (ffmpeg_cmd url p) 60])"
proof (cases "is_youtube_url url")
  case True
  then show ?thesis
    by (simp add: extract_youtube download_calls split: sum.splits)
next
  case False
  then show ?thesis
    by (simp add: extract_generic_calls split: sum.splits)
qed

theorem extract_audio_routing_witness:
  "calls (snd (extract_audio_from_video (demo_env 0 None None) ''https://youtu.be/abc123'' None start)) =
     [YtDlp ''https://youtu.be/abc123'' ''/tmp/tmpk3.%(ext)s'']
   \<and> calls (snd (extract_audio_from_video (demo_env 0 None None) ''/home/u/clip.mp4'' None start)) =
     [SubprocessRun [''ffmpeg'', ''-i'', ''/home/u/clip.mp4'', ''-q:a'', ''2'', ''-map'', ''a'',
                     ''-y'', ''/tmp/tmpk3.mp3''] 60]"
proof -
  have "calls start = []"
    by (simp add: start_def)
  then show ?thesis
    using extract_audio_routing [of "''https://youtu.be/abc123''" "demo_env 0 None None" None start,
        THEN conjunct2]
      extract_audio_routing [of "''/home/u/clip.mp4''" "demo_env 0 None None" None start,
        THEN conjunct2]
    by (simp add: yt_short not_yt_clip tmpl_tmpk3 demo_tmp ffmpeg_cmd_def)
qed

text \<open>
  C9.  On the generic path the process is started through \<open>subprocess.run\<close> with a
  timeout of 60 seconds.  A non-zero exit code gives the failure \<open>FFmpeg failed\<close> with
  the process's stderr, a timeout gives the failure \<open>Audio extraction timeout\<close>, which
  is different from every non-zero-exit failure, and any other exception is raised again as
  it is.  A path is returned only when the process has exited with code 0.
\<close>

theorem extract_generic_failures:
  assumes "\<not> is_youtube_url url"
    and "resolve_output e out w = (Inr p, w1)"
    and "subprocess_run e (ffmpeg_cmd url p) 60 (files w1) = (r, fs)"
  shows "calls (snd (extract_audio_from_video e url out w)) =
           calls w @ [SubprocessRun (ffmpeg_cmd url p) 60]
       \<and> (\<forall>result. r = Inr result \<and> returncode result \<noteq> 0 \<longrightarrow>
            fst (extract_audio_from_video e url out w) =
              Inl (Exception (''FFmpeg failed: '' @ stderr result)))
       \<and> (\<forall>m. r = Inl (TimeoutExpired m) \<longrightarrow>
            fst (extract_audio_from_video e url out w) = Inl (Exception ''Audio extraction timeout''))
       \<and> (\<forall>x. r = Inl x \<and> (\<forall>m. x \<noteq> TimeoutExpired m) \<longrightarrow>
            fst (extract_audio_from_video e url out w) = Inl x)
       \<and> (\<forall>s. Exception ''Audio extraction timeout'' \<noteq> Exception (''FFmpeg failed: '' @ s))
       \<and> ((\<exists>q. fst (extract_audio_from_video e url out w) = Inr q) \<longleftrightarrow>
            (\<exists>result. r = Inr result \<and> returncode result = 0))"
proof -
  have w1: "calls w1 = calls w"
    using assms(2) by (auto simp: resolve_output_def new_temp_mp3_def split: option.splits sum.splits)
  show ?thesis
    using assms w1
    by (auto simp: extract_audio_from_video_def extract_body_def Let_def
          split: sum.splits exn.splits)
qed

theorem extract_generic_failures_witness:
  "fst (extract_audio_from_video (demo_env 1 None None) ''/home/u/clip.mp4'' None start) =
     Inl (Exception ''FFmpeg failed: Invalid data'')
   \<and> fst (extract_audio_from_video timeout_env ''/home/u/clip.mp4'' None start) =
     Inl (Exception ''Audio extraction timeout'')
   \<and> fst (extract_audio_from_video missing_ffmpeg_env ''/home/u/clip.mp4'' None start) =
     Inl (OtherError ''[Errno 2] No such file or directory: ffmpeg'')
   \<and> calls (snd (extract_audio_from_video timeout_env ''/home/u/clip.mp4'' None start)) =
     [SubprocessRun (ffmpeg_cmd ''/home/u/clip.mp4'' ''/tmp/tmpk3.mp3'') 60]"
proof -
  let ?w1 = "\<lparr>files = [''/tmp/tmpk3.mp3'' \<mapsto> 0], calls = []\<rparr>"
  let ?cmd = "ffmpeg_cmd ''/home/u/clip.mp4'' ''/tmp/tmpk3.mp3''"
  have a: "resolve_output (demo_env 1 None None) None start = (Inr ''/tmp/tmpk3.mp3'', ?w1)"
    by (rule demo_tmp)
  have b: "resolve_output timeout_env None start = (Inr ''/tmp/tmpk3.mp3'', ?w1)"
    by (simp add: resolve_output_def new_temp_mp3_def timeout_env_def demo_env_def start_def)
  have c: "resolve_output missing_ffmpeg_env None start = (Inr ''/tmp/tmpk3.mp3'', ?w1)"
    by (simp add: resolve_output_def new_temp_mp3_def missing_ffmpeg_env_def demo_env_def start_def)
  have a': "subprocess_run (demo_env 1 None None) ?cmd 60 (files ?w1) =
      (Inr \<lparr>returncode = 1, stderr = ''Invalid data''\<rparr>, files ?w1)"
    by (simp add: demo_env_def)
  have b': "subprocess_run timeout_env ?cmd 60 (files ?w1) =
      (Inl (TimeoutExpired ''Command timed out after 60 seconds''), files ?w1)"
    by (simp add: timeout_env_def)
  have c': "subprocess_run missing_ffmpeg_env ?cmd 60 (files ?w1) =
      (Inl (OtherError ''[Errno 2] No such file or directory: ffmpeg''), files ?w1)"
    by (simp add: missing_ffmpeg_env_def)
  show ?thesis
    using extract_generic_failures [OF not_yt_clip a a']
      extract_generic_failures [OF not_yt_clip b b']
      extract_generic_failures [OF not_yt_clip c c']
    by (simp add: start_def)
qed

subsection \<open>Facts about transcribe_audio and the steps of process_video\<close>

lemma transcribe_files: "files (snd (transcribe_audio e p w)) = files w"
  by (simp add: transcribe_audio_def Let_def split: sum.splits option.splits)

lemma transcribe_no_cost: "\<not> has_key (fst (transcribe_audio e p w)) ''estimated_cost''"
  by (simp add: transcribe_audio_def transcription_failed_def has_key_def Let_def
      split: sum.splits option.splits)

lemma transcribe_duration:
  "dict_get (fst (transcribe_audio e p w)) ''duration'' = PNone
   \<or> (\<exists>d. dict_get (fst (transcribe_audio e p w)) ''duration'' = PNum d)"
  by (simp add: transcribe_audio_def transcription_failed_def dict_get_def Let_def
      split: sum.splits option.splits)

lemma transcribe_failure_no_duration:
  "dict_get (fst (transcribe_audio e p w)) ''success'' \<noteq> PBool True \<Longrightarrow>
   dict_get (fst (transcribe_audio e p w)) ''duration'' = PNone"
  by (simp add: transcribe_audio_def transcription_failed_def dict_get_def Let_def
      split: sum.splits option.splits if_splits)

lemma transcribe_shape:
  "(dict_get (fst (transcribe_audio e p w)) ''success'' = PBool True
    \<or> dict_get (fst (transcribe_audio e p w)) ''success'' = PBool False)
   \<and> (\<exists>m. dict_get (fst (transcribe_audio e p w)) ''message'' = PMsg m)"
  by (simp add: transcribe_audio_def transcription_failed_def dict_get_def Let_def
      split: sum.splits option.splits)

lemma has_key_dict_set: "has_key (dict_set d k v) k' \<longleftrightarrow> k' = k \<or> has_key d k'"
  by (auto simp: has_key_def dict_set_def update_conv')

lemma dict_get_dict_set: "dict_get (dict_set d k v) k' = (if k' = k then v else dict_get d k')"
  by (simp add: dict_get_def dict_set_def update_conv')

lemma process_body_fetched:
  assumes "extract_audio_from_video e url None w = (Inr p, w1)"
  shows "process_body e url w =
           (let tr = fst (transcribe_audio e p w1); w2 = snd (transcribe_audio e p w1)
            in case dict_get tr ''duration'' of
                 PNum d \<Rightarrow>
                   if d \<noteq> 0
                   then (Inr (dict_set tr ''estimated_cost'' (PNum (d / 60 * 0.006))), Some p, w2)
                   else (Inr tr, Some p, w2)
               | _ \<Rightarrow> (Inr tr, Some p, w2))"
  using assms transcribe_duration [of e p w1]
  by (auto simp: process_body_def Let_def split: prod.splits pyval.splits)

lemma process_body_failed:
  assumes "extract_audio_from_video e url None w = (Inl x, w1)"
  shows "process_body e url w = (Inl x, None, w1)"
  using assms by (simp add: process_body_def)

lemma process_body_path:
  assumes "extract_audio_from_video e url None w = (Inr p, w1)"
  shows "fst (snd (process_body e url w)) = Some p
       \<and> files (snd (snd (process_body e url w))) = files w1"
  using assms
  by (simp add: process_body_fetched Let_def transcribe_files split: pyval.splits)

lemma process_video_fetch_failed:
  assumes "extract_audio_from_video e url None w = (Inl x, w1)"
  shows "process_video e url cleanup w = (Inr (processing_failed x), w1)"
  using assms by (simp add: process_video_def process_body_failed cleanup_step_def)

lemma process_video_world:
  "snd (process_video e url cleanup w) =
     cleanup_step e cleanup (fst (snd (process_body e url w))) (snd (snd (process_body e url w)))"
  by (simp add: process_video_def split: prod.splits sum.splits)

subsection \<open>The example runs, evaluated\<close>

lemma demo_fetch_ok:
  "extract_audio_from_video (demo_env 0 d u) ''/home/u/clip.mp4'' None start =
     (Inr ''/tmp/tmpk3.mp3'',
      \<lparr>files = [''/tmp/tmpk3.mp3'' \<mapsto> 48000],
       calls = [SubprocessRun (ffmpeg_cmd ''/home/u/clip.mp4'' ''/tmp/tmpk3.mp3'') 60]\<rparr>)"
  by (simp add: extract_audio_from_video_def extract_body_def not_yt_clip demo_tmp Let_def)
     (simp add: demo_env_def ffmpeg_cmd_def)

lemma demo_fetch_failed:
  "extract_audio_from_video (demo_env 1 d u) ''/home/u/clip.mp4'' None start =
     (Inl (Exception ''FFmpeg failed: Invalid data''),
      \<lparr>files = [''/tmp/tmpk3.mp3'' \<mapsto> 0],
       calls = [SubprocessRun (ffmpeg_cmd ''/home/u/clip.mp4'' ''/tmp/tmpk3.mp3'') 60]\<rparr>)"
  by (simp add: extract_audio_from_video_def extract_body_def not_yt_clip demo_tmp Let_def)
     (simp add: demo_env_def ffmpeg_cmd_def)

lemma demo_transcribe:
  "transcribe_audio (demo_env rc d u) ''/tmp/tmpk3.mp3''
     \<lparr>files = [''/tmp/tmpk3.mp3'' \<mapsto> 48000], calls = cs\<rparr> =
   ([(''success'', PBool True), (''transcript'', PStr ''hello''), (''language'', PStr ''en''),
     (''duration'', (case d of None \<Rightarrow> PNone | Some x \<Rightarrow> PNum x)),
     (''message'', PMsg (TranscriptionDone ''en''))],
    \<lparr>files = [''/tmp/tmpk3.mp3'' \<mapsto> 48000], calls = cs @ [WhisperCreate ''/tmp/tmpk3.mp3'']\<rparr>)"
  by (simp add: transcribe_audio_def getsize_def demo_env_def Let_def)

lemma demo_run:
  "fst (process_video (demo_env 0 d u) ''/home/u/clip.mp4'' cleanup start) =
     (case d of
        None \<Rightarrow>
          Inr [(''success'', PBool True), (''transcript'', PStr ''hello''),
               (''language'', PStr ''en''), (''duration'', PNone),
               (''message'', PMsg (TranscriptionDone ''en''))]
      | Some x \<Rightarrow>
          if x = 0
          then Inr [(''success'', PBool True), (''transcript'', PStr ''hello''),
                    (''language'', PStr ''en''), (''duration'', PNum 0),
                    (''message'', PMsg (TranscriptionDone ''en''))]
          else Inr [(''success'', PBool True), (''transcript'', PStr ''hello''),
                    (''language'', PStr ''en''), (''duration'', PNum x),
                    (''message'', PMsg (TranscriptionDone ''en'')),
                    (''estimated_cost'', PNum (x / 60 * 0.006))])"
  by (simp add: process_video_def process_body_fetched [OF demo_fetch_ok] demo_transcribe
        Let_def dict_get_def dict_set_def split: option.splits)

subsection \<open>process_video: no exception reaches the caller\<close>

text \<open>
  C6.  \<open>process_video\<close> always returns a dict and never raises.  A failure of the fetch
  step, like any exception of the body, becomes the dict with \<open>success\<close> false, an
  empty transcript, language \<open>en\<close> and the processing-error message built from the
  exception's text; every result carries a boolean \<open>success\<close> and a message.
\<close>

theorem process_video_never_raises:
  "\<exists>r. fst (process_video e url cleanup w) = Inr r
     \<and> (\<forall>x. fst (extract_audio_from_video e url None w) = Inl x \<longrightarrow>
          r = [(''success'', PBool False), (''transcript'', PStr ''''), (''language'', PStr ''en''),
               (''message'', PMsg (ProcessingError (exn_str x)))])
     \<and> (\<forall>x. fst (process_body e url w) = Inl x \<longrightarrow>
          r = [(''success'', PBool False), (''transcript'', PStr ''''), (''language'', PStr ''en''),
               (''message'', PMsg (ProcessingError (exn_str x)))])
     \<and> (dict_get r ''success'' = PBool True \<or> dict_get r ''success'' = PBool False)
     \<and> (\<exists>m. dict_get r ''message'' = PMsg m)"
proof (cases "extract_audio_from_video e url None w")
  case (Pair res w1)
  show ?thesis
  proof (cases res)
    case (Inl x)
    with Pair show ?thesis
      by (simp add: process_video_def process_body_failed processing_failed_def dict_get_def)
  next
    case (Inr p)
    with Pair have b: "extract_audio_from_video e url None w = (Inr p, w1)"
      by simp
    show ?thesis
      using transcribe_shape [of e p w1]
      by (auto simp: process_video_def process_body_fetched [OF b] b Let_def dict_get_dict_set
            split: pyval.splits)
  qed
qed

theorem process_video_never_raises_witness:
  "fst (process_video (demo_env 1 None None) ''/home/u/clip.mp4'' True start) =
     Inr [(''success'', PBool False), (''transcript'', PStr ''''), (''language'', PStr ''en''),
          (''message'', PMsg (ProcessingError ''FFmpeg failed: Invalid data''))]"
  using process_video_never_raises [of "demo_env 1 None None" "''/home/u/clip.mp4''" True start]
  by (auto simp: demo_fetch_failed)

subsection \<open>process_video: the cost estimate\<close>

text \<open>
  C10.  The result of \<open>process_video\<close> has the key \<open>estimated_cost\<close> exactly when the
  fetch returned a path and the transcription result holds a number other than 0 under
  \<open>duration\<close>.  In particular no result whose \<open>success\<close> is not true has the key,
  nor has one with duration 0 or with no duration.
\<close>

theorem estimated_cost_iff_duration:
  assumes "fst (process_video e url cleanup w) = Inr r"
  shows "(has_key r ''estimated_cost'' \<longleftrightarrow>
            (\<exists>p w1 d. extract_audio_from_video e url None w = (Inr p, w1)
               \<and> dict_get (fst (transcribe_audio e p w1)) ''duration'' = PNum d \<and> d \<noteq> 0))
       \<and> (dict_get r ''success'' \<noteq> PBool True \<longrightarrow> \<not> has_key r ''estimated_cost'')"
proof (cases "extract_audio_from_video e url None w")
  case (Pair res w1)
  show ?thesis
  proof (cases res)
    case (Inl x)
    with Pair assms show ?thesis
      by (auto simp: process_video_def process_body_failed processing_failed_def has_key_def)
  next
    case (Inr p)
    with Pair have b: "extract_audio_from_video e url None w = (Inr p, w1)"
      by simp
    show ?thesis
      using assms transcribe_no_cost [of e p w1] transcribe_failure_no_duration [of e p w1]
      by (auto simp: process_video_def process_body_fetched [OF b] b Let_def
            has_key_dict_set dict_get_dict_set
            split: pyval.splits if_splits)
  qed
qed


theorem estimated_cost_iff_duration_witness:
  "has_key [(''success'', PBool True), (''transcript'', PStr ''hello''),
            (''language'', PStr ''en''), (''duration'', PNum 600),
            (''message'', PMsg (TranscriptionDone ''en'')),
            (''estimated_cost'', PNum (600 / 60 * 0.006))] ''estimated_cost''
   = (\<exists>p w1 d. extract_audio_from_video (demo_env 0 (Some 600) None) ''/home/u/clip.mp4'' None start
                   = (Inr p, w1)
        \<and> dict_get (fst (transcribe_audio (demo_env 0 (Some 600) None) p w1)) ''duration'' = PNum d
        \<and> d \<noteq> 0)"
  using estimated_cost_iff_duration [of "demo_env 0 (Some 600) None" "''/home/u/clip.mp4''" True start,
      THEN conjunct1]
  by (simp add: demo_run)

text \<open>
  A transcription that succeeds with duration 0 carries a duration, yet the result has no
  \<open>estimated_cost\<close>: the test \<open>if transcription_result.get("duration")\<close> is false
  for 0.
\<close>

theorem estimated_cost_zero_duration_counterexample:
  "fst (process_video (demo_env 0 (Some 0) None) ''/home/u/clip.mp4'' True start) =
     Inr [(''success'', PBool True), (''transcript'', PStr ''hello''), (''language'', PStr ''en''),
          (''duration'', PNum 0), (''message'', PMsg (TranscriptionDone ''en''))]
   \<and> \<not> has_key [(''success'', PBool True), (''transcript'', PStr ''hello''),
                  (''language'', PStr ''en''), (''duration'', PNum 0),
                  (''message'', PMsg (TranscriptionDone ''en''))] ''estimated_cost''"
  by (simp add: demo_run has_key_def)

text \<open>
  C5, amended.  Whenever the transcription result carries a duration other than 0,
  \<open>process_video\<close> returns it with \<open>estimated_cost = duration / 60 * 0.006\<close>; for a
  duration of 600 seconds that is 0.06.
\<close>

theorem estimated_cost_value:
  assumes "extract_audio_from_video e url None w = (Inr p, w1)"
    and "dict_get (fst (transcribe_audio e p w1)) ''duration'' = PNum d"
    and "d \<noteq> 0"
  shows "\<exists>r. fst (process_video e url cleanup w) = Inr r
           \<and> dict_get r ''estimated_cost'' = PNum (d / 60 * 0.006)
           \<and> (d = 600 \<longrightarrow> dict_get r ''estimated_cost'' = PNum 0.06)"
  using assms
  by (simp add: process_video_def process_body_fetched [OF assms(1)] Let_def dict_get_dict_set)

theorem estimated_cost_value_witness:
  "\<exists>r. fst (process_video (demo_env 0 (Some 600) None) ''/home/u/clip.mp4'' True start) = Inr r
       \<and> dict_get r ''estimated_cost'' = PNum 0.06"
  using estimated_cost_value [OF demo_fetch_ok, of "Some 600" None 600 True]
  by (simp add: demo_transcribe dict_get_def)

subsection \<open>process_video: removal of the audio file\<close>

text \<open>
  C1, amended.  When the fetch step has returned a path, then with \<open>cleanup\<close> true the
  file at that path is gone after \<open>process_video\<close>, whatever the transcription and the
  cost step did, unless \<open>os.unlink\<close> itself raises, in which case the file system is left
  as the fetch left it; no other file is touched.  With \<open>cleanup\<close> false the file
  system is left as the fetch left it, so the file persists.
\<close>

theorem process_video_cleanup:
  assumes "extract_audio_from_video e url None w = (Inr p, w1)" and "p \<noteq> []"
  shows "(os_unlink e p = None \<longrightarrow> files (snd (process_video e url True w)) p = None)
       \<and> (os_unlink e p \<noteq> None \<longrightarrow> files (snd (process_video e url True w)) = files w1)
       \<and> (\<forall>q. q \<noteq> p \<longrightarrow> files (snd (process_video e url True w)) q = files w1 q)
       \<and> files (snd (process_video e url False w)) = files w1"
  using assms process_body_path [OF assms(1)]
  by (auto simp: process_video_world cleanup_step_def split: option.splits)

theorem process_video_cleanup_witness:
  "files (snd (process_video (demo_env 0 (Some 600) None) ''/home/u/clip.mp4'' True start))
     ''/tmp/tmpk3.mp3'' = None
   \<and> files (snd (process_video (demo_env 0 (Some 600) None) ''/home/u/clip.mp4'' False start))
     ''/tmp/tmpk3.mp3'' = Some 48000"
  using process_video_cleanup [OF demo_fetch_ok, of "Some 600" None]
  by (simp add: demo_env_def)

text \<open>
  Two runs with \<open>cleanup\<close> true after which the temporary file is still there.  In the
  first the FFmpeg process exits with code 1: the fetch raises, \<open>audio_path\<close> is still
  \<open>None\<close> in the \<open>finally\<close> block, and the empty file that
  \<open>NamedTemporaryFile(delete=False)\<close> created stays.  In the second everything
  succeeds but \<open>os.unlink\<close> raises, which is logged and dropped.
\<close>

theorem process_video_cleanup_counterexample:
  "fst (extract_audio_from_video (demo_env 1 None None) ''/home/u/clip.mp4'' None start) =
     Inl (Exception ''FFmpeg failed: Invalid data'')
   \<and> files (snd (process_video (demo_env 1 None None) ''/home/u/clip.mp4'' True start))
       ''/tmp/tmpk3.mp3'' = Some 0
   \<and> files (snd (process_video
        (demo_env 0 (Some 600) (Some (OtherError ''[Errno 13] Permission denied'')))
        ''/home/u/clip.mp4'' True start)) ''/tmp/tmpk3.mp3'' = Some 48000"
proof -
  have "files (snd (process_video (demo_env 1 None None) ''/home/u/clip.mp4'' True start))
       ''/tmp/tmpk3.mp3'' = Some 0"
    by (simp add: process_video_world process_body_failed [OF demo_fetch_failed] cleanup_step_def)
  moreover have "files (snd (process_video
        (demo_env 0 (Some 600) (Some (OtherError ''[Errno 13] Permission denied'')))
        ''/home/u/clip.mp4'' True start)) ''/tmp/tmpk3.mp3'' = Some 48000"
    using process_body_path [OF demo_fetch_ok, of "Some 600" "Some (OtherError ''[Errno 13] Permission denied'')"]
    by (simp add: process_video_world cleanup_step_def demo_env_def split: option.splits)
  ultimately show ?thesis
    by (simp add: demo_fetch_failed)
qed

section \<open>Properties of tiktok_search.py\<close>

subsection \<open>The loops\<close>

lemma hashtag_loop_length:
  "length (snd (hashtag_loop q m f c vids)) \<le> length vids + nat (m - c)"
proof (induction f arbitrary: c vids)
  case (Yield v rest)
  show ?case
  proof (cases "make_video_data (''TikTok video about '' @ q) v")
    case (Inl x)
    then show ?thesis using Yield [of c vids] by simp
  next
    case (Inr d)
    have "c < m \<Longrightarrow> Suc (nat (m - (c + 1))) = nat (m - c)"
      by linarith
    then show ?thesis using Inr Yield [of "c + 1" "vids @ [d]"] by auto
  qed
qed simp_all

lemma trending_loop_length:
  "length (snd (trending_loop q m f c vids)) \<le> length vids + nat (m - c)"
proof (induction f arbitrary: c vids)
  case (Yield v rest)
  have s: "c < m \<Longrightarrow> Suc (nat (m - (c + 1))) = nat (m - c)"
    by linarith
  show ?case
  proof (cases "trending_step q v")
    case (Inl x)
    then show ?thesis using Yield [of c vids] by simp
  next
    case (Inr r)
    show ?thesis
    proof (cases r)
      case None
      then show ?thesis using Inr s Yield [of "c + 1" vids] by auto
    next
      case (Some d)
      then show ?thesis using Inr s Yield [of "c + 1" "vids @ [d]"] by auto
    qed
  qed
qed simp_all

lemma trending_loop_kept:
  "snd (trending_loop q m f c vids) =
     vids @ List.map_filter id (take (nat (m - c)) (processed q (feed_items f)))"
proof (induction f arbitrary: c vids)
  case (Yield v rest)
  have s: "c < m \<Longrightarrow> nat (m - c) = Suc (nat (m - (c + 1)))"
    by linarith
  show ?case
  proof (cases "c \<ge> m")
    case True
    then show ?thesis by (simp add: List.map_filter_simps)
  next
    case False
    then have lt: "c < m" by simp
    show ?thesis
    proof (cases "trending_step q v")
      case (Inl x)
      then show ?thesis using lt Yield [of c vids]
        by (simp add: processed_def List.map_filter_simps)
    next
      case (Inr r)
      show ?thesis
      proof (cases r)
        case None
        then show ?thesis using Inr lt s [OF lt] Yield [of "c + 1" vids]
          by (simp add: processed_def List.map_filter_simps)
      next
        case (Some d)
        then show ?thesis using Inr lt s [OF lt] Yield [of "c + 1" "vids @ [d]"]
          by (simp add: processed_def List.map_filter_simps)
      qed
    qed
  qed
qed (simp_all add: processed_def List.map_filter_simps)

lemma trending_step_kept:
  "trending_step q v = Inr (Some d) \<Longrightarrow>
     matches_query q v \<and> make_video_data ''Trending TikTok video'' v = Inr d"
  by (auto simp: trending_step_def matches_query_def split: option.splits if_splits sum.splits)

lemma map_filter_id_take_length:
  "length (List.map_filter id (take n xs)) \<le> min n (length (List.map_filter id xs))"
proof (induction xs arbitrary: n)
  case (Cons x xs)
  show ?case
  proof (cases n)
    case 0
    then show ?thesis by (simp add: List.map_filter_simps)
  next
    case (Suc k)
    then show ?thesis using Cons [of k]
      by (cases x) (auto simp: List.map_filter_simps)
  qed
qed (simp add: List.map_filter_simps)

lemma processed_kept_length:
  "length (List.map_filter id (processed q vs)) \<le> length (filter (matches_query q) vs)"
proof (induction vs)
  case (Cons v vs)
  show ?case
  proof (cases "trending_step q v")
    case (Inl x)
    then show ?thesis using Cons by (simp add: processed_def List.map_filter_simps)
  next
    case (Inr r)
    then show ?thesis using Cons trending_step_kept [of q v]
      by (cases r) (auto simp: processed_def List.map_filter_simps)
  qed
qed (simp add: processed_def List.map_filter_simps)

lemma trending_kept_length:
  "length (trending_kept q m f) \<le> min (length (filter (matches_query q) (feed_items f))) (nat m)"
  using map_filter_id_take_length [of "nat m" "processed q (feed_items f)"]
    processed_kept_length [of q "feed_items f"]
  by (simp add: trending_kept_def)

lemma processed_kept_source:
  "d \<in> set (List.map_filter id (processed q vs)) \<Longrightarrow>
     \<exists>v \<in> set vs. matches_query q v \<and> make_video_data ''Trending TikTok video'' v = Inr d"
proof (induction vs)
  case (Cons v vs)
  show ?case
  proof (cases "trending_step q v")
    case (Inl x)
    then show ?thesis using Cons by (simp add: processed_def List.map_filter_simps)
  next
    case (Inr r)
    then show ?thesis using Cons trending_step_kept [of q v]
      by (cases r) (auto simp: processed_def List.map_filter_simps)
  qed
qed (simp add: processed_def List.map_filter_simps)

lemma map_filter_id_take_subset:
  "set (List.map_filter id (take n xs)) \<subseteq> set (List.map_filter id xs)"
  by (auto simp: List.map_filter_def dest: in_set_takeD)

lemma trending_kept_source:
  "d \<in> set (trending_kept q m f) \<Longrightarrow>
     \<exists>v \<in> set (feed_items f). matches_query q v \<and> make_video_data ''Trending TikTok video'' v = Inr d"
  using map_filter_id_take_subset [of "nat m" "processed q (feed_items f)"]
  by (auto simp: trending_kept_def intro: processed_kept_source)


lemma collect_videos_bounds:
  "length (collect_videos t q m) \<le> 2 * nat m"
  "fst (hashtag_loop q m (hashtag_videos t (lower (replace '' '' [] q)) m) 0 []) = None \<Longrightarrow>
     length (collect_videos t q m) \<le> nat m"
  "snd (hashtag_loop q m (hashtag_videos t (lower (replace '' '' [] q)) m) 0 []) = [] \<Longrightarrow>
     length (collect_videos t q m) \<le> nat m"
proof -
  let ?h = "hashtag_loop q m (hashtag_videos t (lower (replace '' '' [] q)) m) 0 []"
  obtain r vids where h: "?h = (r, vids)"
    by (cases ?h)
  have a: "length vids \<le> nat m"
    using hashtag_loop_length [of q m "hashtag_videos t (lower (replace '' '' [] q)) m" 0 "[]"] h
    by simp
  have b: "length (snd (trending_loop q m (trending_videos t m) 0 vids)) \<le> length vids + nat m"
    using trending_loop_length [of q m "trending_videos t m" 0 vids] by simp
  show "length (collect_videos t q m) \<le> 2 * nat m"
    using a b h by (cases r) (simp_all add: collect_videos_def)
  show "fst ?h = None \<Longrightarrow> length (collect_videos t q m) \<le> nat m"
    using a h by (simp add: collect_videos_def)
  show "snd ?h = [] \<Longrightarrow> length (collect_videos t q m) \<le> nat m"
    using a b h by (cases r) (simp_all add: collect_videos_def)
qed

lemma collect_after_hashtag_error:
  assumes "hashtag_loop q m (hashtag_videos t (lower (replace '' '' [] q)) m) 0 [] = (Some x, [])"
  shows "collect_videos t q m = trending_kept q m (trending_videos t m)"
  using assms trending_loop_kept [of q m "trending_videos t m" 0 "[]"]
  by (simp add: collect_videos_def trending_kept_def)

subsection \<open>The example searches, evaluated\<close>

lemma demo_body: "search_body (demo_tiktok h f) q m = Inr (collect_videos (demo_tiktok h f) q m)"
  by (simp add: search_body_def demo_tiktok_def)

lemma demo_both_fail:
  "collect_videos (demo_tiktok (Raise (OtherError ''boom'')) (Raise (OtherError ''bang''))) ''cat'' 2 = []"
  by (simp add: collect_videos_def demo_tiktok_def)

lemma demo_partial_failure:
  "map vd_video_id (collect_videos
      (demo_tiktok (Yield (demo_video ''1'' ''cat one'') (Raise (OtherError ''connection reset'')))
                   (Yield (demo_video ''2'' ''My Cat two'') (Yield (demo_video ''3'' ''cats'') End)))
      ''cat'' 2) = [''1'', ''2'', ''3'']"
  by code_simp

lemma demo_dog_cat:
  "\<not> matches_query ''cat'' (demo_video ''1'' ''a dog'')
   \<and> matches_query ''cat'' (demo_video ''2'' ''My Cat two'')"
  "map vd_video_id (trending_kept ''cat'' 2
      (Yield (demo_video ''1'' ''a dog'') (Yield (demo_video ''2'' ''My Cat two'') End))) = [''2'']"
  "trending_kept ''cat'' 1
      (Yield (demo_video ''1'' ''a dog'') (Yield (demo_video ''2'' ''My Cat two'') End)) = []"
  by code_simp+


subsection \<open>search_tiktok_videos: no exception reaches the caller\<close>

text \<open>
  C7.  \<open>search_tiktok_videos\<close> always returns a result and never raises.  An exception
  of the \<open>async with\<close> block (entering it, creating the session, leaving it) gives
  \<open>success\<close> false, no videos, \<open>total_found\<close> 0 and the error message built from
  the exception's text; when both tiers have collected nothing the result is
  \<open>success\<close> false, no videos, \<open>total_found\<close> 0 and the not-found message.
\<close>

theorem search_never_raises:
  "\<exists>r. search_tiktok_videos t query max_results = Inr r
     \<and> (\<forall>x. search_body t query max_results = Inl x \<longrightarrow>
          r = \<lparr>sr_success = False, sr_videos = [], sr_total_found = 0,
               sr_message = SearchError (exn_str x)\<rparr>)
     \<and> (search_body t query max_results = Inr [] \<longrightarrow>
          r = \<lparr>sr_success = False, sr_videos = [], sr_total_found = 0,
               sr_message = NotFound query\<rparr>)
     \<and> (sr_videos r = [] \<longrightarrow> \<not> sr_success r \<and> sr_total_found r = 0)"
  by (cases "search_body t query max_results") (auto simp: search_tiktok_videos_def)

theorem search_never_raises_witness:
  "search_tiktok_videos (demo_tiktok (Raise (OtherError ''boom'')) (Raise (OtherError ''bang'')))
       ''cat'' 2 =
     Inr \<lparr>sr_success = False, sr_videos = [], sr_total_found = 0, sr_message = NotFound ''cat''\<rparr>
   \<and> search_tiktok_videos ((demo_tiktok End End)\<lparr>api_enter := Some (OtherError ''no browser'')\<rparr>)
       ''cat'' 2 =
     Inr \<lparr>sr_success = False, sr_videos = [], sr_total_found = 0,
          sr_message = SearchError ''no browser''\<rparr>"
proof -
  have "search_body ((demo_tiktok End End)\<lparr>api_enter := Some (OtherError ''no browser'')\<rparr>) ''cat'' 2
      = Inl (OtherError ''no browser'')"
    by (simp add: search_body_def)
  then show ?thesis
    using search_never_raises [of "demo_tiktok (Raise (OtherError ''boom'')) (Raise (OtherError ''bang''))"
        "''cat''" 2]
      search_never_raises [of "(demo_tiktok End End)\<lparr>api_enter := Some (OtherError ''no browser'')\<rparr>"
        "''cat''" 2]
    by (auto simp: demo_body demo_both_fail)
qed

subsection \<open>search_tiktok_videos: the trending tier\<close>

text \<open>
  C4, amended.  When the hashtag tier raises before any record is collected (and the
  \<open>async with\<close> block is entered and left without error), the records of the result
  are exactly those of \<open>trending_kept\<close>: the relevant videos among the first
  \<open>max_results\<close> trending videos whose processing does not raise.  There are at most
  \<open>min(K, max_results)\<close> of them, \<open>K\<close> being the number of trending videos whose
  description contains a token of the query, and every one is the record of such a
  trending video.
\<close>

theorem trending_fallback_records:
  assumes "search_body t query max_results = Inr (collect_videos t query max_results)"
    and "hashtag_loop query max_results
           (hashtag_videos t (lower (replace '' '' [] query)) max_results) 0 [] = (Some x, [])"
  shows "\<exists>r. search_tiktok_videos t query max_results = Inr r
           \<and> sr_videos r = trending_kept query max_results (trending_videos t max_results)
           \<and> sr_total_found r = length (sr_videos r)
           \<and> length (sr_videos r)
               \<le> min (length (filter (matches_query query)
                                 (feed_items (trending_videos t max_results))))
                      (nat max_results)
           \<and> (\<forall>d \<in> set (sr_videos r).
                 \<exists>v \<in> set (feed_items (trending_videos t max_results)).
                   matches_query query v \<and> make_video_data ''Trending TikTok video'' v = Inr d)"
proof -
  let ?k = "trending_kept query max_results (trending_videos t max_results)"
  have c: "collect_videos t query max_results = ?k"
    by (rule collect_after_hashtag_error [OF assms(2)])
  have "\<exists>r. search_tiktok_videos t query max_results = Inr r \<and> sr_videos r = ?k
          \<and> sr_total_found r = length (sr_videos r)"
    using assms(1) c by (auto simp: search_tiktok_videos_def)
  then obtain r where r: "search_tiktok_videos t query max_results = Inr r" "sr_videos r = ?k"
    "sr_total_found r = length (sr_videos r)"
    by blast
  show ?thesis
    using r trending_kept_length [of query max_results "trending_videos t max_results"]
      trending_kept_source [of _ query max_results "trending_videos t max_results"]
    by auto
qed


subsection \<open>search_tiktok_videos: the cap on the number of records\<close>

text \<open>
  C3.  The number of records of the result is not bounded by \<open>max_results\<close> when the
  hashtag feed raises after records were collected: the trending tier appends to the same
  list with its counter back at 0.  Here \<open>max_results = 2\<close>, the hashtag feed yields one
  video and then raises, the trending feed yields two relevant videos, and the result
  holds all three.  (\<open>collect_videos_bounds\<close> above gives what does hold: at most
  \<open>2 * max_results\<close> records, and at most \<open>max_results\<close> when the hashtag tier ends
  without exception or has collected nothing.)
\<close>

theorem search_exceeds_max_results:
  "\<exists>r. search_tiktok_videos
          (demo_tiktok (Yield (demo_video ''1'' ''cat one'') (Raise (OtherError ''connection reset'')))
             (Yield (demo_video ''2'' ''My Cat two'') (Yield (demo_video ''3'' ''cats'') End)))
          ''cat'' 2 = Inr r
       \<and> sr_success r \<and> map vd_video_id (sr_videos r) = [''1'', ''2'', ''3'']
       \<and> sr_total_found r = 3"
proof -
  let ?t = "demo_tiktok (Yield (demo_video ''1'' ''cat one'') (Raise (OtherError ''connection reset'')))
             (Yield (demo_video ''2'' ''My Cat two'') (Yield (demo_video ''3'' ''cats'') End))"
  have "length (map vd_video_id (collect_videos ?t ''cat'' 2)) = length [''1'', ''2'', ''3'']"
    by (simp only: demo_partial_failure)
  then have l: "length (collect_videos ?t ''cat'' 2) = 3"
    by simp
  then have "collect_videos ?t ''cat'' 2 \<noteq> []"
    by auto
  then show ?thesis
    using demo_partial_failure l by (simp add: search_tiktok_videos_def demo_body)
qed

theorem trending_fallback_records_witness:
  "\<exists>r. search_tiktok_videos
          (demo_tiktok (Raise (OtherError ''boom''))
             (Yield (demo_video ''1'' ''a dog'') (Yield (demo_video ''2'' ''My Cat two'') End)))
          ''cat'' 2 = Inr r
       \<and> map vd_video_id (sr_videos r) = [''2''] \<and> sr_total_found r = 1"
proof -
  let ?t = "demo_tiktok (Raise (OtherError ''boom''))
             (Yield (demo_video ''1'' ''a dog'') (Yield (demo_video ''2'' ''My Cat two'') End))"
  have h: "hashtag_loop ''cat'' 2 (hashtag_videos ?t (lower (replace '' '' [] ''cat'')) 2) 0 []
             = (Some (OtherError ''boom''), [])"
    by (simp add: demo_tiktok_def)
  have f: "trending_videos ?t 2 =
             Yield (demo_video ''1'' ''a dog'') (Yield (demo_video ''2'' ''My Cat two'') End)"
    by (simp add: demo_tiktok_def)
  obtain r where r: "search_tiktok_videos ?t ''cat'' 2 = Inr r"
      "sr_videos r = trending_kept ''cat'' 2 (trending_videos ?t 2)"
      "sr_total_found r = length (sr_videos r)"
    using trending_fallback_records [OF demo_body h] by blast
  have m: "map vd_video_id (sr_videos r) = [''2'']"
    using r(2) demo_dog_cat(2) by (simp add: f)
  have "length (map vd_video_id (sr_videos r)) = length [''2'']"
    by (simp only: m)
  then have "sr_total_found r = 1"
    using r(3) by simp
  then show ?thesis
    using r(1) m by simp
qed

text \<open>
  The hashtag call raises and the trending feed yields two videos, the second of which
  mentions the query: \<open>N = 2\<close>, \<open>K = 1\<close>.  With \<open>max_results = 1\<close> the loop
  counts the first video, which is not relevant, and stops: the result has no record,
  not \<open>min(K, max_results) = 1\<close>.
\<close>

theorem trending_fallback_counterexample:
  "hashtag_videos
      (demo_tiktok (Raise (OtherError ''boom''))
         (Yield (demo_video ''1'' ''a dog'') (Yield (demo_video ''2'' ''My Cat two'') End)))
      (lower (replace '' '' [] ''cat'')) 1 = Raise (OtherError ''boom'')
   \<and> length (feed_items (trending_videos
        (demo_tiktok (Raise (OtherError ''boom''))
           (Yield (demo_video ''1'' ''a dog'') (Yield (demo_video ''2'' ''My Cat two'') End))) 1)) = 2
   \<and> length (filter (matches_query ''cat'') (feed_items (trending_videos
        (demo_tiktok (Raise (OtherError ''boom''))
           (Yield (demo_video ''1'' ''a dog'') (Yield (demo_video ''2'' ''My Cat two'') End))) 1))) = 1
   \<and> search_tiktok_videos
        (demo_tiktok (Raise (OtherError ''boom''))
           (Yield (demo_video ''1'' ''a dog'') (Yield (demo_video ''2'' ''My Cat two'') End)))
        ''cat'' 1 =
      Inr \<lparr>sr_success = False, sr_videos = [], sr_total_found = 0, sr_message = NotFound ''cat''\<rparr>"
proof -
  let ?f = "Yield (demo_video ''1'' ''a dog'') (Yield (demo_video ''2'' ''My Cat two'') End)"
  let ?t = "demo_tiktok (Raise (OtherError ''boom'')) ?f"
  have f: "trending_videos ?t 1 = ?f"
    by (simp add: demo_tiktok_def)
  have h: "hashtag_videos ?t (lower (replace '' '' [] ''cat'')) 1 = Raise (OtherError ''boom'')"
    by (simp add: demo_tiktok_def)
  have "collect_videos ?t ''cat'' 1 = trending_kept ''cat'' 1 (trending_videos ?t 1)"
    by (rule collect_after_hashtag_error [where x = "OtherError ''boom''"]) (simp add: h)
  then have c: "collect_videos ?t ''cat'' 1 = []"
    by (simp add: f demo_dog_cat(3))
  show ?thesis
    using c h by (simp add: f demo_dog_cat(1) search_tiktok_videos_def demo_body)
qed

end
